theory Spec2Isabelle
  imports Complex_Main
begin

section \<open>The evolutionary-strategy engine of \<open>evopy/evopy.py\<close>\<close>

text \<open>
  A shallow embedding of class \<open>EvoPy\<close>: its configuration, \<open>_check_early_stop\<close>,
  \<open>_age_population\<close>, \<open>_init_population\<close> and \<open>run\<close>.

  Conventions of the embedding.
  \<^item> A Python float is modelled as the \<open>real\<close> it denotes; NaN is outside the model.
    Comparison, \<open>abs\<close>, minimum and maximum of floats are exact and are those of the
    reals. Operations on floats that round, which are the subtraction in the stop check and
    in the report and numpy's mean and standard deviation, are parameters.
  \<^item> Python integers that the engine feeds to \<open>range\<close> or to a slice are \<open>int\<close>, with
    Python's behaviour for negative values written out (\<open>py_range_len\<close>, \<open>slice_to\<close>).
    Lengths and ages, which start at 0 and only grow, are \<open>nat\<close>.
  \<^item> Exceptions are values of type \<open>error\<close>; a function that can raise returns its result
    in a sum, together with the engine state reached at that point.
  \<^item> The collaborators that live outside the class (the random generator, the clock,
    \<open>Individual.reproduce\<close>, floating-point subtraction, numpy's statistics) are
    parameters, collected in the record \<open>collaborators\<close>.
\<close>

subsection \<open>Data model\<close>

datatype error = ValueError | IndexError | TypeError

text \<open>
  Modelled from the spec: the \<open>Strategy\<close> enumeration (module \<open>evopy.strategy\<close> is not
  among the source files). It has exactly three recognized values; Python being untyped,
  any other object can be passed as \<open>strategy\<close>, which \<open>Not_A_Strategy\<close> stands for.
\<close>

datatype strategy_value =
  SINGLE_VARIANCE | MULTIPLE_VARIANCE | FULL_VARIANCE | Not_A_Strategy nat

text \<open>
  Modelled from the spec: an \<open>Individual\<close> (module \<open>evopy.individual\<close> is not among the
  source files) owns a genotype, its strategy parameters, an age that starts at 0 and a
  cached fitness that is undefined until the individual is evaluated. The arguments
  \<open>random_seed\<close>, \<open>forces_config\<close> and \<open>mutation_rate\<close> of its constructor are handed
  through to reproduction, which is a parameter here, and are not read by the engine.
\<close>

record individual =
  genotype :: "real list"
  ind_strategy :: strategy_value
  strategy_parameters :: "real list"
  ind_bounds :: "(real \<times> real) option"
  age :: nat
  fitness :: "real option"

text \<open>
  Modelled from the spec: the constructor \<open>Individual(genotype, strategy,
  strategy_parameters, bounds=...)\<close> stores its arguments, with age 0 and no fitness.
\<close>

definition Individual ::
  "real list \<Rightarrow> strategy_value \<Rightarrow> real list \<Rightarrow> (real \<times> real) option \<Rightarrow> individual" where
  "Individual parameters strat strat_parameters bnds =
     \<lparr>genotype = parameters, ind_strategy = strat, strategy_parameters = strat_parameters,
      ind_bounds = bnds, age = 0, fitness = None\<rparr>"

text \<open>
  Modelled from the spec: \<open>Individual.evaluate(fitness_function)\<close> computes the fitness of
  the genotype, caches it in the individual and returns it.
\<close>

definition evaluate :: "(real list \<Rightarrow> real) \<Rightarrow> individual \<Rightarrow> individual \<times> real" where
  "evaluate f i = (let v = f (genotype i) in (i\<lparr>fitness := Some v\<rparr>, v))"

text \<open>
  The fields of \<open>self\<close> that \<open>__init__\<close> sets from its arguments and that are never
  assigned again. \<open>reporter\<close> records whether a callback was given
  (\<open>self.reporter is not None\<close>); an absent optional argument is \<open>None\<close>.
\<close>

record evopy =
  fitness_function :: "real list \<Rightarrow> real"
  individual_length :: nat
  warm_start :: "real list list option"
  generations :: int
  population_size :: int
  num_children :: int
  mean :: real
  std :: real
  maximize :: bool
  strategy :: strategy_value
  reporter :: bool
  target_fitness_value :: "real option"
  target_tolerance :: real
  max_run_time :: "real option"
  max_evaluations :: "int option"
  bounds :: "(real \<times> real) option"
  max_age :: int

text \<open>
  The collaborators, with the state \<open>'r\<close> of the shared random generator passed
  explicitly: \<open>randn n\<close> is \<open>self.random.randn(n)\<close>, \<open>normal loc scale n\<close> is
  \<open>self.random.normal(loc=loc, scale=scale, size=n)\<close>, \<open>reproduce\<close> is
  \<open>Individual.reproduce\<close>, and \<open>time k\<close> is what the \<open>k\<close>-th call of \<open>time.time()\<close>
  returns. \<open>float_sub x y\<close> is the float that Python computes for \<open>x - y\<close>, the exact
  difference rounded to a double; nothing is assumed about the rounding. \<open>np_mean\<close> and
  \<open>np_std\<close> are numpy's mean and standard deviation of a list of floats, which only
  the report carries.
\<close>

record 'r collaborators =
  randn :: "nat \<Rightarrow> 'r \<Rightarrow> real list \<times> 'r"
  normal :: "real \<Rightarrow> real \<Rightarrow> nat \<Rightarrow> 'r \<Rightarrow> real list \<times> 'r"
  reproduce :: "individual \<Rightarrow> 'r \<Rightarrow> individual \<times> 'r"
  time :: "nat \<Rightarrow> real"
  float_sub :: "real \<Rightarrow> real \<Rightarrow> real"
  np_mean :: "real list \<Rightarrow> real"
  np_std :: "real list \<Rightarrow> real"

text \<open>
  Modelled from the spec: the \<open>ProgressReport\<close> handed to the reporter (module
  \<open>evopy.progress_report\<close> is not among the source files), with the nine constructor
  arguments of the call in \<open>run\<close>.
\<close>

record progress_report =
  rp_generation :: int
  rp_evaluations :: int
  rp_best :: individual
  rp_best_genotype :: "real list"
  rp_best_fitness :: "real option"
  rp_mean :: real
  rp_std :: real
  rp_time :: real
  rp_should_stop :: bool

text \<open>
  What a run changes: the counter \<open>self.evaluations\<close> and the state of \<open>self.random\<close>,
  and, outside the object, how often the clock has been read, how often the fitness
  function has been called, and the reports the reporter has received (oldest first).
\<close>

record 'r engine =
  evaluations :: int
  random_state :: 'r
  clock_reads :: nat
  fitness_calls :: nat
  reported :: "progress_report list"

text \<open>The state of a newly constructed engine: \<open>__init__\<close> sets \<open>self.evaluations = 0\<close>.\<close>

definition new_engine :: "'r \<Rightarrow> 'r engine" where
  "new_engine seed =
     \<lparr>evaluations = 0, random_state = seed, clock_reads = 0, fitness_calls = 0, reported = []\<rparr>"

subsection \<open>Python and numpy primitives\<close>

text \<open>\<open>len(range(n))\<close>: a negative bound gives the empty range.\<close>

definition py_range_len :: "int \<Rightarrow> nat" where
  "py_range_len n = nat n"

text \<open>The slice \<open>xs[:n]\<close>: a negative bound counts from the end of the list.\<close>

definition slice_to :: "int \<Rightarrow> 'a list \<Rightarrow> 'a list" where
  "slice_to n xs = (if 0 \<le> n then take (nat n) xs else take (length xs - nat (- n)) xs)"

text \<open>
  \<open>sorted(xs, reverse=r, key=k)\<close> on precomputed keys: a stable ascending sort; with
  \<open>reverse\<close> the list is reversed, sorted and reversed again, so that equal keys keep
  their original order.
\<close>

definition py_sorted :: "bool \<Rightarrow> ('a \<Rightarrow> real) \<Rightarrow> 'a list \<Rightarrow> 'a list" where
  "py_sorted rev_flag k xs =
     (if rev_flag then rev (sort_key k (rev xs)) else sort_key k xs)"

text \<open>\<open>np.clip(x, lo, hi)\<close> on one component: \<open>minimum(maximum(x, lo), hi)\<close>.\<close>

definition np_clip :: "real \<Rightarrow> real \<Rightarrow> real \<Rightarrow> real" where
  "np_clip x lo hi = min (max x lo) hi"

subsection \<open>\<open>_check_early_stop\<close>\<close>

text \<open>
  The three disjuncts are evaluated left to right and \<open>and\<close>/\<open>or\<close> short-circuit: the
  clock is read only when \<open>max_run_time\<close> is set, and \<open>best.fitness\<close> is read only when
  the time condition is false and a target is set (subtracting from an absent fitness
  raises \<open>TypeError\<close>). Both differences, \<open>time.time() - start_time\<close> and
  \<open>best.fitness - self.target_fitness_value\<close>, are floating-point subtractions.
\<close>

definition check_early_stop ::
  "evopy \<Rightarrow> 'r collaborators \<Rightarrow> real \<Rightarrow> individual \<Rightarrow> 'r engine \<Rightarrow> (error + bool) \<times> 'r engine" where
  "check_early_stop self env start_time best eng =
     (let (time_up, eng1) =
            (case max_run_time self of
               None \<Rightarrow> (False, eng)
             | Some limit \<Rightarrow>
                 (float_sub env (time env (clock_reads eng)) start_time > limit,
                  eng\<lparr>clock_reads := Suc (clock_reads eng)\<rparr>));
          budget_spent =
            (case max_evaluations self of
               None \<Rightarrow> False
             | Some limit \<Rightarrow> evaluations eng \<ge> limit)
      in if time_up then (Inr True, eng1)
         else (case target_fitness_value self of
                 None \<Rightarrow> (Inr budget_spent, eng1)
               | Some target \<Rightarrow>
                   (case fitness best of
                      None \<Rightarrow> (Inl TypeError, eng1)
                    | Some v \<Rightarrow>
                        if \<bar>float_sub env v target\<bar> < target_tolerance self
                        then (Inr True, eng1)
                        else (Inr budget_spent, eng1))))"

subsection \<open>\<open>_age_population\<close>\<close>

definition age_population :: "evopy \<Rightarrow> individual list \<Rightarrow> individual list" where
  "age_population self population =
     (let population = filter (\<lambda>i. int (age i) < max_age self) population
      in map (\<lambda>individual. individual\<lparr>age := age individual + 1\<rparr>) population)"

subsection \<open>\<open>_init_population\<close>\<close>

text \<open>
  The list comprehension over \<open>range(self.population_size)\<close>: one call of
  \<open>self.random.normal(loc=0, scale=self.std, size=self.individual_length)\<close> per row.
\<close>

fun sample_rows ::
  "'r collaborators \<Rightarrow> real \<Rightarrow> nat \<Rightarrow> nat \<Rightarrow> 'r \<Rightarrow> real list list \<times> 'r" where
  "sample_rows env scale len 0 r = ([], r)"
| "sample_rows env scale len (Suc n) r =
     (let (row, r1) = normal env 0 scale len r;
          (rows, r2) = sample_rows env scale len n r1
      in (row # rows, r2))"

text \<open>
  The strategy parameters are drawn first, then the genotypes; an unrecognized strategy
  raises \<open>ValueError\<close> before anything is drawn. The size
  \<open>int((self.individual_length + 1) * self.individual_length / 2)\<close> is the integer
  quotient: the product is even, and the float division is exact unless the product
  exceeds \<open>2^53\<close>, which is beyond any array that can be allocated. Bounds are a pair
  of floats \<open>(lo, hi)\<close> applied to every component.
\<close>

definition init_population ::
  "evopy \<Rightarrow> 'r collaborators \<Rightarrow> 'r engine \<Rightarrow> (error + individual list) \<times> 'r engine" where
  "init_population self env eng =
     (case (case strategy self of
              SINGLE_VARIANCE \<Rightarrow> Some (randn env 1 (random_state eng))
            | MULTIPLE_VARIANCE \<Rightarrow> Some (randn env (individual_length self) (random_state eng))
            | FULL_VARIANCE \<Rightarrow>
                Some (randn env ((individual_length self + 1) * individual_length self div 2)
                        (random_state eng))
            | Not_A_Strategy _ \<Rightarrow> None) of
        None \<Rightarrow> (Inl ValueError, eng)
      | Some (strat_parameters, r1) \<Rightarrow>
          (let (population_parameters, r2) =
                 (case warm_start self of
                    None \<Rightarrow>
                      sample_rows env (std self) (individual_length self)
                        (py_range_len (population_size self)) r1
                  | Some rows \<Rightarrow> (rows, r1));
               population_parameters =
                 (case bounds self of
                    None \<Rightarrow> population_parameters
                  | Some (lo, hi) \<Rightarrow> map (map (\<lambda>x. np_clip x lo hi)) population_parameters)
           in (Inr (map (\<lambda>parameters.
                           Individual parameters (strategy self) strat_parameters (bounds self))
                      population_parameters),
               eng\<lparr>random_state := r2\<rparr>)))"

subsection \<open>The body of the generation loop\<close>

text \<open>
  \<open>[parent.reproduce() for _ in range(self.num_children) for parent in population]\<close>:
  the outer loop runs over the passes, the inner one over the parents; every call
  advances the shared random generator.
\<close>

fun reproduce_all ::
  "'r collaborators \<Rightarrow> individual list \<Rightarrow> 'r \<Rightarrow> individual list \<times> 'r" where
  "reproduce_all env [] r = ([], r)"
| "reproduce_all env (parent # parents) r =
     (let (child, r1) = reproduce env parent r;
          (children, r2) = reproduce_all env parents r1
      in (child # children, r2))"

fun make_children ::
  "'r collaborators \<Rightarrow> nat \<Rightarrow> individual list \<Rightarrow> 'r \<Rightarrow> individual list \<times> 'r" where
  "make_children env 0 population r = ([], r)"
| "make_children env (Suc n) population r =
     (let (first_pass, r1) = reproduce_all env population r;
          (other_passes, r2) = make_children env n population r1
      in (first_pass @ other_passes, r2))"

text \<open>
  Lines 94 to 96 of \<open>run\<close>: the children are produced from the unaged parents, then the
  parents are aged; the list handed to \<open>sorted\<close> is \<open>children + population\<close>.
\<close>

definition offspring_and_survivors ::
  "evopy \<Rightarrow> 'r collaborators \<Rightarrow> individual list \<Rightarrow> 'r \<Rightarrow> individual list \<times> 'r" where
  "offspring_and_survivors self env population r =
     (let (children, r1) = make_children env (py_range_len (num_children self)) population r;
          population = age_population self population
      in (children @ population, r1))"

text \<open>
  \<open>sorted(xs, reverse=self.maximize, key=lambda individual:
  individual.evaluate(self.fitness_function))\<close>: the key function is called once on every
  element, which caches the fitness in it, and the elements are then ordered by these keys.
\<close>

definition sorted_by_fitness :: "evopy \<Rightarrow> individual list \<Rightarrow> individual list" where
  "sorted_by_fitness self xs =
     map fst (py_sorted (maximize self) snd (map (evaluate (fitness_function self)) xs))"

text \<open>\<open>[x.fitness for x in population]\<close> as numbers; \<open>None\<close> if some fitness is absent.\<close>

fun fitness_values :: "individual list \<Rightarrow> real list option" where
  "fitness_values [] = Some []"
| "fitness_values (x # xs) =
     (case fitness x of
        None \<Rightarrow> None
      | Some v \<Rightarrow> (case fitness_values xs of None \<Rightarrow> None | Some vs \<Rightarrow> Some (v # vs)))"

text \<open>
  Lines 105 to 108: with a reporter, the statistics are computed (numpy raises
  \<open>TypeError\<close> on an absent fitness), the clock is read and the report is delivered.
\<close>

definition report ::
  "evopy \<Rightarrow> 'r collaborators \<Rightarrow> real \<Rightarrow> int \<Rightarrow> individual list \<Rightarrow> individual \<Rightarrow> bool \<Rightarrow>
   'r engine \<Rightarrow> error option \<times> 'r engine" where
  "report self env start_time generation population best should_stop eng =
     (if reporter self then
        (case fitness_values population of
           None \<Rightarrow> (Some TypeError, eng)
         | Some fs \<Rightarrow>
             (None,
              eng\<lparr>clock_reads := Suc (clock_reads eng),
                  reported := reported eng @
                    [\<lparr>rp_generation = generation, rp_evaluations = evaluations eng,
                      rp_best = best, rp_best_genotype = genotype best,
                      rp_best_fitness = fitness best,
                      rp_mean = np_mean env fs, rp_std = np_std env fs,
                      rp_time = float_sub env (time env (clock_reads eng)) start_time,
                      rp_should_stop = should_stop\<rparr>]\<rparr>))
      else (None, eng))"

text \<open>The values of the loop's variables at the end of one pass through its body.\<close>

record generation_result =
  g_population :: "individual list"
  g_best :: individual
  g_should_stop :: bool

text \<open>
  Lines 94 to 108: one pass through the body of the loop, up to the test of
  \<open>should_stop\<close>. \<open>population[0]\<close> raises \<open>IndexError\<close> on an empty population.
\<close>

definition generation ::
  "evopy \<Rightarrow> 'r collaborators \<Rightarrow> real \<Rightarrow> int \<Rightarrow> individual list \<Rightarrow> 'r engine \<Rightarrow>
   (error + generation_result) \<times> 'r engine" where
  "generation self env start_time g population eng =
     (let (pool, r1) = offspring_and_survivors self env population (random_state eng);
          population = sorted_by_fitness self pool;
          eng1 = eng\<lparr>random_state := r1,
                     fitness_calls := fitness_calls eng + length pool,
                     evaluations := evaluations eng + int (length population)\<rparr>;
          population = slice_to (population_size self) population
      in case population of
           [] \<Rightarrow> (Inl IndexError, eng1)
         | best # _ \<Rightarrow>
             (case check_early_stop self env start_time best eng1 of
                (Inl e, eng2) \<Rightarrow> (Inl e, eng2)
              | (Inr early, eng2) \<Rightarrow>
                  (let should_stop = (early \<or> g = generations self - 1)
                   in case report self env start_time g population best should_stop eng2 of
                        (Some e, eng3) \<Rightarrow> (Inl e, eng3)
                      | (None, eng3) \<Rightarrow>
                          (Inr \<lparr>g_population = population, g_best = best,
                                g_should_stop = should_stop\<rparr>, eng3))))"

subsection \<open>\<open>run\<close>\<close>

text \<open>
  The loop \<open>for generation in range(self.generations)\<close> with its \<open>break\<close>, from
  generation \<open>g\<close> on; it returns the individual bound to \<open>best\<close> when the loop is left.
\<close>

function loop ::
  "evopy \<Rightarrow> 'r collaborators \<Rightarrow> real \<Rightarrow> int \<Rightarrow> individual list \<Rightarrow> individual \<Rightarrow> 'r engine \<Rightarrow>
   (error + individual) \<times> 'r engine" where
  "loop self env start_time g population best eng =
     (if g < generations self then
        (case generation self env start_time g population eng of
           (Inl e, eng1) \<Rightarrow> (Inl e, eng1)
         | (Inr res, eng1) \<Rightarrow>
             if g_should_stop res then (Inr (g_best res), eng1)
             else loop self env start_time (g + 1) (g_population res) (g_best res) eng1)
      else (Inr best, eng))"
  by pat_completeness auto
termination
  by (relation "measure (\<lambda>(self, env, start_time, g, population, best, eng).
        nat (generations self - g))") auto

declare loop.simps [simp del]

text \<open>
  \<open>run\<close>: \<open>None\<close> for an individual length of 0; otherwise the clock is read, the
  population is initialized and every initial individual is evaluated by the first
  \<open>sorted\<close> (which leaves \<open>population\<close> in its order and raises \<open>IndexError\<close> at \<open>[0]\<close> when
  it is empty), the loop runs, and the genotype of \<open>best\<close> is returned.
\<close>

definition run ::
  "evopy \<Rightarrow> 'r collaborators \<Rightarrow> 'r engine \<Rightarrow> (error + real list option) \<times> 'r engine" where
  "run self env eng =
     (if individual_length self = 0 then (Inr None, eng)
      else
        (let start_time = time env (clock_reads eng);
             eng0 = eng\<lparr>clock_reads := Suc (clock_reads eng)\<rparr>
         in case init_population self env eng0 of
              (Inl e, eng1) \<Rightarrow> (Inl e, eng1)
            | (Inr population, eng1) \<Rightarrow>
                (let ranked = sorted_by_fitness self population;
                     population = map (\<lambda>i. fst (evaluate (fitness_function self) i)) population;
                     eng2 = eng1\<lparr>fitness_calls := fitness_calls eng1 + length population\<rparr>
                 in case ranked of
                      [] \<Rightarrow> (Inl IndexError, eng2)
                    | best # _ \<Rightarrow>
                        (case loop self env start_time 0 population best eng2 of
                           (Inl e, eng3) \<Rightarrow> (Inl e, eng3)
                         | (Inr best, eng3) \<Rightarrow> (Inr (Some (genotype best)), eng3)))))"

subsection \<open>Observing a run\<close>

text \<open>
  The passes through the body that \<open>loop\<close> makes from generation \<open>g\<close> on, in order:
  for each pass the list \<open>children + population\<close> that was evaluated, the outcome of the
  pass and the engine state after it. The recursion is that of \<open>loop\<close>; lemma
  \<open>loop_last_trace\<close> below states that \<open>loop\<close> returns what the last entry holds.
\<close>

function generations_trace ::
  "evopy \<Rightarrow> 'r collaborators \<Rightarrow> real \<Rightarrow> int \<Rightarrow> individual list \<Rightarrow> 'r engine \<Rightarrow>
   (individual list \<times> (error + generation_result) \<times> 'r engine) list" where
  "generations_trace self env start_time g population eng =
     (if g < generations self then
        (let pool = fst (offspring_and_survivors self env population (random_state eng))
         in case generation self env start_time g population eng of
              (Inl e, eng1) \<Rightarrow> [(pool, Inl e, eng1)]
            | (Inr res, eng1) \<Rightarrow>
                (pool, Inr res, eng1) #
                (if g_should_stop res then []
                 else generations_trace self env start_time (g + 1) (g_population res) eng1))
      else [])"
  by pat_completeness auto
termination
  by (relation "measure (\<lambda>(self, env, start_time, g, population, eng).
        nat (generations self - g))") auto

declare generations_trace.simps [simp del]

text \<open>
  The order of a ranked population, in the words of the specification: \<open>x\<close> may stand
  before \<open>y\<close> if both have a fitness and that of \<open>x\<close> is at least as good in the
  configured direction (larger when maximizing, smaller when minimizing).
\<close>

definition ranks_before :: "evopy \<Rightarrow> individual \<Rightarrow> individual \<Rightarrow> bool" where
  "ranks_before self x y =
     (case (fitness x, fitness y) of
        (Some u, Some v) \<Rightarrow> (if maximize self then v \<le> u else u \<le> v)
      | _ \<Rightarrow> False)"

subsection \<open>Example inputs\<close>

text \<open>
  Collaborators without randomness, for evaluating the engine on concrete inputs: every
  normal deviate equals \<open>loc\<close> (which is what numpy returns for \<open>scale = 0\<close>), a child
  is its parent with every component moved up by 1, at age 0 and not yet evaluated, and
  the \<open>k\<close>-th reading of the clock is \<open>k\<close>. Subtraction does not round: the examples
  only subtract 0, which floating-point subtraction does exactly.
\<close>

definition demo_env :: "nat collaborators" where
  "demo_env =
     \<lparr>randn = (\<lambda>n r. (replicate n 0, Suc r)),
      normal = (\<lambda>loc scale n r. (replicate n loc, Suc r)),
      reproduce = (\<lambda>parent r.
        (parent\<lparr>genotype := map (\<lambda>x. x + 1) (genotype parent), age := 0, fitness := None\<rparr>,
         Suc r)),
      time = (\<lambda>k. real k),
      float_sub = (\<lambda>x y. x - y),
      np_mean = (\<lambda>xs. sum_list xs / real (length xs)),
      np_std = (\<lambda>xs. 0)\<rparr>"

text \<open>
  A minimizing configuration with the defaults of \<open>__init__\<close> where a choice is free
  (\<open>num_children = 1\<close>, \<open>target_tolerance = 1e-5\<close>, \<open>max_age = 0\<close>, no bounds, no
  budgets): sum of squares on genotypes of length 1, one individual started at 0, two
  generations, with a reporter.
\<close>

definition demo :: evopy where
  "demo =
     \<lparr>fitness_function = (\<lambda>g. sum_list (map (\<lambda>x. x * x) g)), individual_length = 1,
      warm_start = Some [[0]], generations = 2, population_size = 1, num_children = 1,
      mean = 0, std = 1, maximize = False, strategy = SINGLE_VARIANCE, reporter = True,
      target_fitness_value = None, target_tolerance = 1 / 100000, max_run_time = None,
      max_evaluations = None, bounds = None, max_age = 0\<rparr>"

text \<open>The same with room for two individuals that may live for five generations.\<close>

definition crowd :: evopy where
  "crowd = demo\<lparr>population_size := 2, max_age := 5, generations := 3\<rparr>"

text \<open>The early-stop scenario: target fitness 0 within 1e-5, fifty generations allowed.\<close>

definition converging :: evopy where
  "converging = demo\<lparr>generations := 50, target_fitness_value := Some 0,
     warm_start := Some [[- 999 / 1000]]\<rparr>"

definition seedling :: "real \<Rightarrow> individual" where
  "seedling x = Individual [x] SINGLE_VARIANCE [0] None"

definition young :: individual where
  "young = seedling 3"

definition old :: individual where
  "old = (seedling 4)\<lparr>age := 2\<rparr>"

definition fresh :: "nat engine" where
  "fresh = new_engine 0"

section \<open>Properties of the building blocks\<close>

lemmas engine_defs =
  run_def init_population_def Individual_def sorted_by_fitness_def py_sorted_def evaluate_def
  generation_def offspring_and_survivors_def py_range_len_def age_population_def slice_to_def
  check_early_stop_def report_def new_engine_def

lemmas example_defs =
  demo_def demo_env_def crowd_def converging_def seedling_def young_def old_def fresh_def

subsection \<open>Reproduction and aging\<close>

lemma length_reproduce_all: "length (fst (reproduce_all env ps r)) = length ps"
  by (induction ps arbitrary: r) (simp_all add: split_beta)

lemma length_make_children: "length (fst (make_children env n ps r)) = n * length ps"
proof (induction n arbitrary: r)
  case 0
  then show ?case by simp
next
  case (Suc n)
  have "length (fst (reproduce_all env ps r)) = length ps"
    by (rule length_reproduce_all)
  moreover have "length (fst (make_children env n ps (snd (reproduce_all env ps r)))) =
      n * length ps"
    by (rule Suc.IH)
  ultimately show ?case
    by (simp add: split_beta)
qed

lemma offspring_and_survivors_pool:
  "fst (offspring_and_survivors self env ps r) =
     fst (make_children env (py_range_len (num_children self)) ps r) @ age_population self ps"
  by (simp add: offspring_and_survivors_def split_beta)

lemma length_offspring_and_survivors:
  "length (fst (offspring_and_survivors self env ps r)) =
     nat (num_children self) * length ps + length (age_population self ps)"
  by (simp add: offspring_and_survivors_pool length_make_children py_range_len_def)

subsection \<open>Sorting and slicing\<close>

lemma set_py_sorted: "set (py_sorted b k xs) = set xs"
  by (simp add: py_sorted_def)

lemma length_py_sorted: "length (py_sorted b k xs) = length xs"
  by (simp add: py_sorted_def)

lemma sorted_wrt_py_sorted:
  "sorted_wrt (\<lambda>x y. if b then k y \<le> k x else k x \<le> k y) (py_sorted b k xs)"
proof (cases b)
  case True
  have "sorted (map k (sort_key k (rev xs)))"
    by (rule sorted_sort_key)
  then have "sorted_wrt (\<lambda>x y. k x \<le> k y) (sort_key k (rev xs))"
    by (simp add: sorted_map)
  then have "sorted_wrt (\<lambda>x y. k y \<le> k x) (rev (sort_key k (rev xs)))"
    by (simp add: sorted_wrt_rev)
  with True show ?thesis
    by (simp add: py_sorted_def)
next
  case False
  have "sorted (map k (sort_key k xs))"
    by (rule sorted_sort_key)
  with False show ?thesis
    by (simp add: py_sorted_def sorted_map)
qed

lemma length_sorted_by_fitness: "length (sorted_by_fitness self xs) = length xs"
  by (simp add: sorted_by_fitness_def length_py_sorted)

lemma set_sorted_by_fitness:
  "set (sorted_by_fitness self xs) =
     (\<lambda>i. i\<lparr>fitness := Some (fitness_function self (genotype i))\<rparr>) ` set xs"
  by (auto simp: sorted_by_fitness_def set_py_sorted evaluate_def Let_def image_iff)

lemma fitness_sorted_by_fitness:
  "x \<in> set (sorted_by_fitness self xs) \<Longrightarrow>
     fitness x = Some (fitness_function self (genotype x))"
  by (auto simp: set_sorted_by_fitness)

lemma sorted_wrt_sorted_by_fitness:
  "sorted_wrt (ranks_before self) (sorted_by_fitness self xs)"
proof -
  let ?E = "map (evaluate (fitness_function self)) xs"
  let ?S = "py_sorted (maximize self) snd ?E"
  have S: "sorted_wrt (\<lambda>x y. if maximize self then snd y \<le> snd x else snd x \<le> snd y) ?S"
    by (rule sorted_wrt_py_sorted)
  have mem: "\<And>p. p \<in> set ?S \<Longrightarrow> fitness (fst p) = Some (snd p)"
    by (auto simp: set_py_sorted evaluate_def Let_def)
  have "sorted_wrt (\<lambda>p q. ranks_before self (fst p) (fst q)) ?S"
    by (rule sorted_wrt_mono_rel [OF _ S]) (auto simp: ranks_before_def dest!: mem)
  then show ?thesis
    by (simp add: sorted_by_fitness_def sorted_wrt_map)
qed

lemma sorted_wrt_hd:
  "sorted_wrt R xs \<Longrightarrow> x \<in> set xs \<Longrightarrow> x = hd xs \<or> R (hd xs) x"
  by (cases xs) auto

lemma length_slice_to: "0 \<le> n \<Longrightarrow> length (slice_to n xs) \<le> nat n"
  by (simp add: slice_to_def)

lemma set_slice_to: "x \<in> set (slice_to n xs) \<Longrightarrow> x \<in> set xs"
  by (auto simp: slice_to_def dest: in_set_takeD split: if_splits)

lemma sorted_wrt_slice_to: "sorted_wrt P xs \<Longrightarrow> sorted_wrt P (slice_to n xs)"
  by (simp add: slice_to_def)

lemma hd_slice_to: "slice_to n xs \<noteq> [] \<Longrightarrow> hd (slice_to n xs) = hd xs"
  by (auto simp: slice_to_def split: if_splits)

lemma np_clip_inside: "lo \<le> x \<Longrightarrow> x \<le> hi \<Longrightarrow> np_clip x lo hi = x"
  by (simp add: np_clip_def)

lemma genotype_Individual: "genotype (Individual p s sp b) = p"
  by (simp add: Individual_def)

subsection \<open>The stop check, the report and one generation\<close>

lemma check_early_stop_evaluated:
  assumes "fitness best = Some v"
  shows "check_early_stop self env t0 best eng =
    (Inr ((case max_run_time self of None \<Rightarrow> False
           | Some limit \<Rightarrow> float_sub env (time env (clock_reads eng)) t0 > limit) \<or>
          (case target_fitness_value self of None \<Rightarrow> False
           | Some target \<Rightarrow> \<bar>float_sub env v target\<bar> < target_tolerance self) \<or>
          (case max_evaluations self of None \<Rightarrow> False
           | Some limit \<Rightarrow> limit \<le> evaluations eng)),
     eng\<lparr>clock_reads := (case max_run_time self of None \<Rightarrow> clock_reads eng
                          | Some limit \<Rightarrow> Suc (clock_reads eng))\<rparr>)"
  using assms by (auto simp: check_early_stop_def Let_def split: option.splits)

lemma check_early_stop_engine:
  "check_early_stop self env t0 best eng = (out, eng2) \<Longrightarrow>
     evaluations eng2 = evaluations eng \<and> fitness_calls eng2 = fitness_calls eng \<and>
     random_state eng2 = random_state eng \<and> reported eng2 = reported eng"
  by (auto simp: check_early_stop_def Let_def split: option.splits if_splits)

lemma report_engine:
  "report self env t0 g population best stop eng = (out, eng3) \<Longrightarrow>
     evaluations eng3 = evaluations eng \<and> fitness_calls eng3 = fitness_calls eng \<and>
     random_state eng3 = random_state eng"
  by (auto simp: report_def split: option.splits if_splits)

lemma report_delivered:
  "report self env t0 g population best stop eng = (None, eng3) \<Longrightarrow> reporter self \<Longrightarrow>
     \<exists>r. reported eng3 = reported eng @ [r] \<and> rp_generation r = g \<and>
         rp_should_stop r = stop \<and> rp_best r = best \<and> rp_best_fitness r = fitness best \<and>
         rp_evaluations r = evaluations eng"
  by (auto simp: report_def split: option.splits if_splits)

lemma generation_InrE:
  assumes "generation self env t0 g population eng = (Inr res, eng')"
  obtains pool r1 early eng2 where
    "offspring_and_survivors self env population (random_state eng) = (pool, r1)"
    "g_population res = slice_to (population_size self) (sorted_by_fitness self pool)"
    "g_population res \<noteq> []"
    "g_best res = hd (g_population res)"
    "check_early_stop self env t0 (g_best res)
       (eng\<lparr>random_state := r1, fitness_calls := fitness_calls eng + length pool,
            evaluations := evaluations eng + int (length pool)\<rparr>) = (Inr early, eng2)"
    "g_should_stop res = (early \<or> g = generations self - 1)"
    "report self env t0 g (g_population res) (g_best res) (g_should_stop res) eng2 = (None, eng')"
  using assms unfolding generation_def
  by (auto simp: Let_def length_sorted_by_fitness
           split: prod.splits list.splits sum.splits option.splits)

lemma generation_engine:
  assumes "generation self env t0 g population eng = (out, eng')"
  shows "evaluations eng' = evaluations eng +
           int (length (fst (offspring_and_survivors self env population (random_state eng))))"
    and "fitness_calls eng' = fitness_calls eng +
           length (fst (offspring_and_survivors self env population (random_state eng)))"
  using assms unfolding generation_def
  by (auto simp: Let_def length_sorted_by_fitness
           split: prod.splits list.splits sum.splits option.splits
           dest!: check_early_stop_engine report_engine)

lemma init_population_engine:
  "init_population self env eng = (out, eng1) \<Longrightarrow>
     evaluations eng1 = evaluations eng \<and> fitness_calls eng1 = fitness_calls eng \<and>
     clock_reads eng1 = clock_reads eng \<and> reported eng1 = reported eng"
  by (auto simp: init_population_def Let_def split: option.splits prod.splits)

subsection \<open>The loop and its trace\<close>

lemma trace_evaluations:
  "k < length (generations_trace self env t0 g population eng) \<Longrightarrow>
   evaluations (snd (snd (generations_trace self env t0 g population eng ! k))) =
     evaluations eng +
     (\<Sum>j\<le>k. int (length (fst (generations_trace self env t0 g population eng ! j))))"
proof (induction self env t0 g population eng arbitrary: k rule: generations_trace.induct)
  case (1 self env t0 g population eng)
  let ?pool = "fst (offspring_and_survivors self env population (random_state eng))"
  let ?T = "generations_trace self env t0 g population eng"
  from "1.prems" have run: "g < generations self"
    by (auto simp: generations_trace.simps [of self env t0 g population eng] split: if_splits)
  obtain out eng1 where gen: "generation self env t0 g population eng = (out, eng1)"
    by force
  have ev: "evaluations eng1 = evaluations eng + int (length ?pool)"
    using gen by (rule generation_engine)
  show ?case
  proof (cases out)
    case (Inl e)
    with run gen have T: "?T = [(?pool, Inl e, eng1)]"
      by (simp add: generations_trace.simps [of self env t0 g population eng])
    with "1.prems" ev show ?thesis by simp
  next
    case (Inr res)
    show ?thesis
    proof (cases "g_should_stop res")
      case True
      with run gen Inr have T: "?T = [(?pool, Inr res, eng1)]"
        by (simp add: generations_trace.simps [of self env t0 g population eng])
      with "1.prems" ev show ?thesis by simp
    next
      case False
      let ?T' = "generations_trace self env t0 (g + 1) (g_population res) eng1"
      from run gen Inr False have T: "?T = (?pool, Inr res, eng1) # ?T'"
        by (simp add: generations_trace.simps [of self env t0 g population eng])
      show ?thesis
      proof (cases k)
        case 0
        with T ev show ?thesis by simp
      next
        case (Suc k')
        with "1.prems" T have "k' < length ?T'" by simp
        then have "evaluations (snd (snd (?T' ! k'))) =
            evaluations eng1 + (\<Sum>j\<le>k'. int (length (fst (?T' ! j))))"
          using run gen Inr False by (intro "1.IH") auto
        with Suc T ev show ?thesis
          by (simp add: sum.atMost_Suc_shift del: sum.atMost_Suc)
      qed
    qed
  qed
qed

lemma loop_last_trace:
  "loop self env t0 g population best eng =
     (case generations_trace self env t0 g population eng of
        [] \<Rightarrow> (Inr best, eng)
      | entry # entries \<Rightarrow>
          (case last (entry # entries) of
             (pool, Inl e, eng1) \<Rightarrow> (Inl e, eng1)
           | (pool, Inr res, eng1) \<Rightarrow> (Inr (g_best res), eng1)))"
proof (induction self env t0 g population best eng rule: loop.induct)
  case (1 self env t0 g population best eng)
  show ?case
  proof (cases "g < generations self")
    case False
    then show ?thesis
      by (simp add: loop.simps [of self env t0 g population best eng]
            generations_trace.simps [of self env t0 g population eng])
  next
    case True
    obtain out eng1 where gen: "generation self env t0 g population eng = (out, eng1)"
      by force
    show ?thesis
    proof (cases out)
      case (Inl e)
      with True gen show ?thesis
        by (simp add: loop.simps [of self env t0 g population best eng]
              generations_trace.simps [of self env t0 g population eng])
    next
      case (Inr res)
      show ?thesis
      proof (cases "g_should_stop res")
        case stop: True
        with True gen Inr show ?thesis
          by (simp add: loop.simps [of self env t0 g population best eng]
                generations_trace.simps [of self env t0 g population eng])
      next
        case False
        have IH: "loop self env t0 (g + 1) (g_population res) (g_best res) eng1 =
          (case generations_trace self env t0 (g + 1) (g_population res) eng1 of
             [] \<Rightarrow> (Inr (g_best res), eng1)
           | entry # entries \<Rightarrow>
               (case last (entry # entries) of
                  (pool, Inl e, eng1) \<Rightarrow> (Inl e, eng1)
                | (pool, Inr res, eng1) \<Rightarrow> (Inr (g_best res), eng1)))"
          using True gen Inr False by (intro "1.IH") auto
        from True gen Inr False show ?thesis
          by (simp add: loop.simps [of self env t0 g population best eng]
                generations_trace.simps [of self env t0 g population eng] IH
                split: list.splits)
      qed
    qed
  qed
qed

lemma loop_calls_evaluations:
  "loop self env t0 g population best eng = (out, eng') \<Longrightarrow>
     int (fitness_calls eng') - evaluations eng' = int (fitness_calls eng) - evaluations eng"
proof (induction self env t0 g population best eng rule: loop.induct)
  case (1 self env t0 g population best eng)
  show ?case
  proof (cases "g < generations self")
    case False
    with "1.prems" show ?thesis
      by (simp add: loop.simps [of self env t0 g population best eng])
  next
    case True
    obtain res eng1 where gen: "generation self env t0 g population eng = (res, eng1)"
      by force
    have step: "int (fitness_calls eng1) - evaluations eng1 =
        int (fitness_calls eng) - evaluations eng"
      using generation_engine [OF gen] by simp
    show ?thesis
    proof (cases res)
      case (Inl e)
      with True gen "1.prems" step show ?thesis
        by (simp add: loop.simps [of self env t0 g population best eng])
    next
      case (Inr r)
      show ?thesis
      proof (cases "g_should_stop r")
        case stop: True
        with True gen Inr "1.prems" step show ?thesis
          by (simp add: loop.simps [of self env t0 g population best eng])
      next
        case False
        with True gen Inr "1.prems"
        have "loop self env t0 (g + 1) (g_population r) (g_best r) eng1 = (out, eng')"
          by (simp add: loop.simps [of self env t0 g population best eng])
        then have "int (fitness_calls eng') - evaluations eng' =
            int (fitness_calls eng1) - evaluations eng1"
          using True gen Inr False by (intro "1.IH") auto
        with step show ?thesis by simp
      qed
    qed
  qed
qed

section \<open>The claims\<close>

subsection \<open>C1: monotonic improvement\<close>

text \<open>
  Claim C1, as amended. Take two consecutive passes through the body of the loop,
  generation \<open>g\<close> and generation \<open>g + 1\<close>. If the best individual of generation
  \<open>g\<close> is younger than \<open>max_age\<close>, so that it survives the aging step of generation
  \<open>g + 1\<close>, then the best fitness of generation \<open>g + 1\<close> is at most that of
  generation \<open>g\<close> in a minimizing run and at least that in a maximizing run; with a
  reporter, these are the fitness values of the two reports.
\<close>

theorem best_fitness_monotone_while_best_survives:
  assumes "generation self env t0 g population eng = (Inr res1, eng1)"
    and "generation self env t0 (g + 1) (g_population res1) eng1 = (Inr res2, eng2)"
    and "int (age (g_best res1)) < max_age self"
  shows "\<exists>a b. fitness (g_best res1) = Some a \<and> fitness (g_best res2) = Some b \<and>
           (if maximize self then a \<le> b else b \<le> a) \<and>
           (reporter self \<longrightarrow>
              rp_best_fitness (last (reported eng1)) = Some a \<and>
              rp_best_fitness (last (reported eng2)) = Some b)"
proof -
  let ?f = "fitness_function self"
  from assms(1) obtain pool1 eng1a where
    pop1: "g_population res1 = slice_to (population_size self) (sorted_by_fitness self pool1)"
    and ne1: "g_population res1 \<noteq> []"
    and best1: "g_best res1 = hd (g_population res1)"
    and rep1: "report self env t0 g (g_population res1) (g_best res1) (g_should_stop res1) eng1a =
       (None, eng1)"
    by (rule generation_InrE)
  from assms(2) obtain pool2 r2 eng2a where
    pool2: "offspring_and_survivors self env (g_population res1) (random_state eng1) = (pool2, r2)"
    and pop2: "g_population res2 = slice_to (population_size self) (sorted_by_fitness self pool2)"
    and ne2: "g_population res2 \<noteq> []"
    and best2: "g_best res2 = hd (g_population res2)"
    and rep2: "report self env t0 (g + 1) (g_population res2) (g_best res2) (g_should_stop res2)
       eng2a = (None, eng2)"
    by (rule generation_InrE)
  from ne1 best1 have in1: "g_best res1 \<in> set (g_population res1)" by simp
  then have "g_best res1 \<in> set (sorted_by_fitness self pool1)"
    unfolding pop1 by (rule set_slice_to)
  then have fit1: "fitness (g_best res1) = Some (?f (genotype (g_best res1)))"
    by (rule fitness_sorted_by_fitness)
  let ?aged = "(g_best res1)\<lparr>age := age (g_best res1) + 1\<rparr>"
  let ?kept = "?aged\<lparr>fitness := Some (?f (genotype ?aged))\<rparr>"
  from in1 assms(3) have "?aged \<in> set (age_population self (g_population res1))"
    by (auto simp: age_population_def)
  then have "?aged \<in> set pool2"
    using offspring_and_survivors_pool [of self env "g_population res1" "random_state eng1"]
      pool2 by simp
  then have kept: "?kept \<in> set (sorted_by_fitness self pool2)"
    unfolding set_sorted_by_fitness by (rule imageI)
  from ne2 have hd2: "g_best res2 = hd (sorted_by_fitness self pool2)"
    unfolding best2 pop2 by (rule hd_slice_to)
  from ne2 best2 have "g_best res2 \<in> set (g_population res2)" by simp
  then have "g_best res2 \<in> set (sorted_by_fitness self pool2)"
    unfolding pop2 by (rule set_slice_to)
  then have fit2: "fitness (g_best res2) = Some (?f (genotype (g_best res2)))"
    by (rule fitness_sorted_by_fitness)
  have "?kept = g_best res2 \<or> ranks_before self (g_best res2) ?kept"
    using sorted_wrt_hd [OF sorted_wrt_sorted_by_fitness kept] hd2 by simp
  then have ord: "if maximize self then ?f (genotype (g_best res1)) \<le> ?f (genotype (g_best res2))
      else ?f (genotype (g_best res2)) \<le> ?f (genotype (g_best res1))"
  proof
    assume "?kept = g_best res2"
    then have "genotype (g_best res2) = genotype (g_best res1)"
      by (metis (no_types) individual.select_convs(1) individual.surjective
            individual.update_convs(5,6))
    then show ?thesis by simp
  next
    assume "ranks_before self (g_best res2) ?kept"
    with fit2 show ?thesis
      by (simp add: ranks_before_def split: if_splits)
  qed
  have "reporter self \<longrightarrow>
      rp_best_fitness (last (reported eng1)) = fitness (g_best res1) \<and>
      rp_best_fitness (last (reported eng2)) = fitness (g_best res2)"
    using report_delivered [OF rep1] report_delivered [OF rep2] by auto
  with fit1 fit2 ord show ?thesis
    by (intro exI [of _ "?f (genotype (g_best res1))"]
          exI [of _ "?f (genotype (g_best res2))"]) simp
qed

text \<open>
  An instance: two individuals may live for five generations; the best fitness goes from
  4 in the first generation to 1 in the second.
\<close>

theorem best_fitness_monotone_while_best_survives_witness:
  "fst (generation crowd demo_env 0 0 [seedling (- 3)] fresh) =
     Inr \<lparr>g_population = [(seedling (- 2))\<lparr>fitness := Some 4\<rparr>,
                          (seedling (- 3))\<lparr>age := 1, fitness := Some 9\<rparr>],
          g_best = (seedling (- 2))\<lparr>fitness := Some 4\<rparr>, g_should_stop = False\<rparr> \<and>
   fst (generation crowd demo_env 0 1
          [(seedling (- 2))\<lparr>fitness := Some 4\<rparr>,
           (seedling (- 3))\<lparr>age := 1, fitness := Some 9\<rparr>]
          (snd (generation crowd demo_env 0 0 [seedling (- 3)] fresh))) =
     Inr \<lparr>g_population = [(seedling (- 1))\<lparr>fitness := Some 1\<rparr>,
                          (seedling (- 2))\<lparr>fitness := Some 4\<rparr>],
          g_best = (seedling (- 1))\<lparr>fitness := Some 1\<rparr>, g_should_stop = False\<rparr> \<and>
   int (age ((seedling (- 2))\<lparr>fitness := Some 4\<rparr>)) < max_age crowd \<and>
   \<not> maximize crowd \<and>
   (\<exists>a b. fitness ((seedling (- 2))\<lparr>fitness := Some 4\<rparr>) = Some a \<and>
          fitness ((seedling (- 1))\<lparr>fitness := Some 1\<rparr>) = Some b \<and> b \<le> a)"
proof -
  let ?G1 = "generation crowd demo_env 0 0 [seedling (- 3)] fresh"
  let ?P1 = "[(seedling (- 2))\<lparr>fitness := Some 4\<rparr>,
              (seedling (- 3))\<lparr>age := 1, fitness := Some 9\<rparr>]"
  let ?R1 = "\<lparr>g_population = ?P1, g_best = (seedling (- 2))\<lparr>fitness := Some 4\<rparr>,
              g_should_stop = False\<rparr>"
  let ?G2 = "generation crowd demo_env 0 1 ?P1 (snd ?G1)"
  let ?R2 = "\<lparr>g_population = [(seedling (- 1))\<lparr>fitness := Some 1\<rparr>,
                               (seedling (- 2))\<lparr>fitness := Some 4\<rparr>],
              g_best = (seedling (- 1))\<lparr>fitness := Some 1\<rparr>, g_should_stop = False\<rparr>"
  have gen1: "fst ?G1 = Inr ?R1"
    by (simp add: engine_defs example_defs fresh_def)
  then have gen1': "?G1 = (Inr ?R1, snd ?G1)"
    by (simp add: prod_eq_iff)
  have gen2: "fst ?G2 = Inr ?R2"
    by (simp add: engine_defs example_defs fresh_def)
  then have gen2': "generation crowd demo_env 0 (0 + 1) (g_population ?R1) (snd ?G1) =
      (Inr ?R2, snd ?G2)"
    by (simp add: prod_eq_iff)
  have young: "int (age (g_best ?R1)) < max_age crowd"
    by (simp add: example_defs Individual_def)
  have dir: "\<not> maximize crowd"
    by (simp add: example_defs)
  from best_fitness_monotone_while_best_survives [OF gen1' gen2' young] dir gen1 gen2 young
  show ?thesis
    by auto
qed

text \<open>
  Without that condition the claim fails. With the default \<open>max_age = 0\<close> every parent
  is dropped before selection: in the run of \<open>demo\<close>, which minimizes, the reported
  best fitness rises from 1 at generation 0 to 4 at generation 1.
\<close>

theorem best_fitness_not_monotone_counterexample:
  "\<not> maximize demo \<and>
   map rp_generation (reported (snd (run demo demo_env fresh))) = [0, 1] \<and>
   map rp_best_fitness (reported (snd (run demo demo_env fresh))) = [Some 1, Some 4]"
  by (simp add: loop.simps engine_defs example_defs)

subsection \<open>C2: sampling the initial population\<close>

text \<open>
  Claim C2 says that without a warm start the initial genotypes are drawn around the
  configured mean. \<open>_init_population\<close> calls the generator with \<open>loc=0\<close>: with mean 5
  and standard deviation 0, where every draw is its location, the initial genotype is
  \<open>[0]\<close> and not \<open>[5]\<close>, and in general the outcome of \<open>_init_population\<close> does not
  depend on the configured mean at all.
\<close>

theorem init_population_samples_around_zero:
  "mean (demo\<lparr>warm_start := None, mean := 5, std := 0\<rparr>) = 5 \<and>
   fst (init_population (demo\<lparr>warm_start := None, mean := 5, std := 0\<rparr>) demo_env fresh) =
     Inr [seedling 0] \<and>
   genotype (seedling 0) = [0] \<and>
   init_population (self\<lparr>mean := m\<rparr>) env eng = init_population self env eng"
proof -
  have "init_population (self\<lparr>mean := m\<rparr>) env eng = init_population self env eng"
    by (simp add: init_population_def
          cong: option.case_cong prod.case_cong strategy_value.case_cong)
  moreover have
    "fst (init_population (demo\<lparr>warm_start := None, mean := 5, std := 0\<rparr>) demo_env fresh) =
       Inr [seedling 0]"
    by (simp add: engine_defs example_defs)
  ultimately show ?thesis
    by (simp add: seedling_def genotype_Individual)
qed

subsection \<open>C3: warm start\<close>

text \<open>
  Claim C3, as amended. With a warm start and a recognized strategy, \<open>_init_population\<close>
  returns one individual per row of the warm-start matrix. Without box bounds the
  genotypes are the rows, unchanged. With bounds \<open>(lo, hi)\<close> every component is clipped
  to \<open>min (max x lo) hi\<close>, which leaves the rows unchanged if every component already
  lies within the bounds.
\<close>

theorem init_population_warm_start:
  assumes "warm_start self = Some rows"
    and "strategy self \<in> {SINGLE_VARIANCE, MULTIPLE_VARIANCE, FULL_VARIANCE}"
  shows "\<exists>population eng1.
     init_population self env eng = (Inr population, eng1) \<and>
     map genotype population =
       (case bounds self of
          None \<Rightarrow> rows
        | Some (lo, hi) \<Rightarrow> map (map (\<lambda>x. np_clip x lo hi)) rows) \<and>
     (bounds self = None \<longrightarrow> map genotype population = rows) \<and>
     (\<forall>lo hi. bounds self = Some (lo, hi) \<longrightarrow>
        (\<forall>row \<in> set rows. \<forall>x \<in> set row. lo \<le> x \<and> x \<le> hi) \<longrightarrow>
        map genotype population = rows)"
  using assms
  by (cases "strategy self")
     (auto simp: init_population_def comp_def genotype_Individual np_clip_inside
           split: prod.splits option.splits intro!: map_idI)

text \<open>
  Instances: with bounds \<open>(0, 1)\<close> the rows \<open>[5]\<close> and \<open>[1/2]\<close> become \<open>[1]\<close> and
  \<open>[1/2]\<close>; without bounds the row \<open>[0]\<close> is kept.
\<close>

theorem init_population_warm_start_witness:
  "warm_start (demo\<lparr>warm_start := Some [[5], [1 / 2]], bounds := Some (0, 1)\<rparr>)
     = Some [[5], [1 / 2]] \<and>
   strategy (demo\<lparr>warm_start := Some [[5], [1 / 2]], bounds := Some (0, 1)\<rparr>)
     \<in> {SINGLE_VARIANCE, MULTIPLE_VARIANCE, FULL_VARIANCE} \<and>
   fst (init_population (demo\<lparr>warm_start := Some [[5], [1 / 2]], bounds := Some (0, 1)\<rparr>)
          demo_env fresh) =
     Inr [(seedling 1)\<lparr>ind_bounds := Some (0, 1)\<rparr>,
          (seedling (1 / 2))\<lparr>ind_bounds := Some (0, 1)\<rparr>] \<and>
   warm_start demo = Some [[0]] \<and> bounds demo = None \<and>
   fst (init_population demo demo_env fresh) = Inr [seedling 0]"
  using init_population_warm_start
          [of "demo\<lparr>warm_start := Some [[5], [1 / 2]], bounds := Some (0, 1)\<rparr>"
              "[[5], [1 / 2]]" demo_env fresh]
        init_population_warm_start [of demo "[[0]]" demo_env fresh]
  by (simp add: engine_defs example_defs np_clip_def)

text \<open>
  The claim as stated, for configurations with bounds, fails: the warm-start row \<open>[5]\<close>
  under the bounds \<open>(0, 1)\<close> gives the genotype \<open>[1]\<close>.
\<close>

theorem init_population_warm_start_clipped_counterexample:
  "warm_start (demo\<lparr>warm_start := Some [[5]], bounds := Some (0, 1)\<rparr>) = Some [[5]] \<and>
   fst (init_population (demo\<lparr>warm_start := Some [[5]], bounds := Some (0, 1)\<rparr>) demo_env
          fresh) =
     Inr [(seedling 1)\<lparr>ind_bounds := Some (0, 1)\<rparr>] \<and>
   genotype ((seedling 1)\<lparr>ind_bounds := Some (0, 1)\<rparr>) \<noteq> [5]"
  by (simp add: engine_defs example_defs np_clip_def)

subsection \<open>C4: early stopping\<close>

text \<open>
  Claim C4. In a pass through the body of the loop that reaches the stop check,
  \<open>should_stop\<close> holds exactly if the time since the start, read at the check, exceeds
  \<open>max_run_time\<close>, or the absolute difference between the fitness of the best
  individual and the target is strictly below the tolerance, or the evaluation counter
  has reached \<open>max_evaluations\<close> (each only if configured), or the generation is the
  last configured one. The elapsed time and the difference are the floats that the code
  computes by subtraction. If \<open>should_stop\<close> holds, the loop ends with this
  generation and returns its best individual; otherwise the next generation runs. With a
  reporter, the report of the generation carries the flag. In particular, with the target
  0, from which a float is subtracted exactly, a best fitness whose absolute value is
  below the tolerance ends the run at that generation.
\<close>

theorem early_stop_ends_run:
  assumes "g < generations self"
    and "generation self env t0 g population eng = (Inr res, eng1)"
  shows "\<exists>v. fitness (g_best res) = Some v \<and>
     (g_should_stop res \<longleftrightarrow>
        (case max_run_time self of
           None \<Rightarrow> False
         | Some limit \<Rightarrow> float_sub env (time env (clock_reads eng)) t0 > limit) \<or>
        (case target_fitness_value self of
           None \<Rightarrow> False
         | Some target \<Rightarrow> \<bar>float_sub env v target\<bar> < target_tolerance self) \<or>
        (case max_evaluations self of
           None \<Rightarrow> False
         | Some limit \<Rightarrow> evaluations eng1 \<ge> limit) \<or>
        g = generations self - 1) \<and>
     (g_should_stop res \<longrightarrow>
        loop self env t0 g population best eng = (Inr (g_best res), eng1)) \<and>
     (\<not> g_should_stop res \<longrightarrow>
        loop self env t0 g population best eng =
        loop self env t0 (g + 1) (g_population res) (g_best res) eng1) \<and>
     (reporter self \<longrightarrow>
        reported eng1 \<noteq> [] \<and> rp_generation (last (reported eng1)) = g \<and>
        rp_should_stop (last (reported eng1)) = g_should_stop res) \<and>
     (target_fitness_value self = Some 0 \<and> float_sub env v 0 = v \<and>
      \<bar>v\<bar> < target_tolerance self \<longrightarrow>
        g_should_stop res \<and>
        loop self env t0 g population best eng = (Inr (g_best res), eng1))"
proof -
  from assms(2) obtain pool r1 early eng2 where
    pop: "g_population res = slice_to (population_size self) (sorted_by_fitness self pool)"
    and ne: "g_population res \<noteq> []"
    and best: "g_best res = hd (g_population res)"
    and chk: "check_early_stop self env t0 (g_best res)
       (eng\<lparr>random_state := r1, fitness_calls := fitness_calls eng + length pool,
            evaluations := evaluations eng + int (length pool)\<rparr>) = (Inr early, eng2)"
    and stop: "g_should_stop res = (early \<or> g = generations self - 1)"
    and rep: "report self env t0 g (g_population res) (g_best res) (g_should_stop res) eng2 =
       (None, eng1)"
    by (rule generation_InrE)
  from ne best have "g_best res \<in> set (g_population res)" by simp
  then have "g_best res \<in> set (sorted_by_fitness self pool)"
    unfolding pop by (rule set_slice_to)
  then have fit: "fitness (g_best res) = Some (fitness_function self (genotype (g_best res)))"
    by (rule fitness_sorted_by_fitness)
  let ?v = "fitness_function self (genotype (g_best res))"
  have ev: "evaluations eng1 = evaluations eng + int (length pool)"
    using check_early_stop_engine [OF chk] report_engine [OF rep] by simp
  from chk have early: "early \<longleftrightarrow>
        (case max_run_time self of
           None \<Rightarrow> False
         | Some limit \<Rightarrow> float_sub env (time env (clock_reads eng)) t0 > limit) \<or>
        (case target_fitness_value self of
           None \<Rightarrow> False
         | Some target \<Rightarrow> \<bar>float_sub env ?v target\<bar> < target_tolerance self) \<or>
        (case max_evaluations self of
           None \<Rightarrow> False
         | Some limit \<Rightarrow> evaluations eng1 \<ge> limit)"
    by (auto simp: check_early_stop_evaluated [OF fit] ev cong: option.case_cong)
  have lp: "loop self env t0 g population best eng =
      (if g_should_stop res then (Inr (g_best res), eng1)
       else loop self env t0 (g + 1) (g_population res) (g_best res) eng1)"
    using assms by (simp add: loop.simps [of self env t0 g population best eng])
  have rp: "reporter self \<longrightarrow>
        reported eng1 \<noteq> [] \<and> rp_generation (last (reported eng1)) = g \<and>
        rp_should_stop (last (reported eng1)) = g_should_stop res"
    using report_delivered [OF rep] by auto
  have zero: "target_fitness_value self = Some 0 \<and> float_sub env ?v 0 = ?v \<and>
      \<bar>?v\<bar> < target_tolerance self \<longrightarrow> early"
    unfolding early by simp
  from fit stop early lp rp zero show ?thesis
    by (intro exI [of _ ?v]) auto
qed

text \<open>
  The scenario of the claim: target 0 with tolerance 1e-5, fitness the squared norm, fifty
  generations allowed. The first generation reaches the best fitness 1e-6 and the loop
  ends there, with the flag of its report set.
\<close>

theorem early_stop_ends_run_witness:
  "0 < generations converging \<and> 0 \<noteq> generations converging - 1 \<and>
   target_fitness_value converging = Some 0 \<and> target_tolerance converging = 1 / 100000 \<and>
   fst (generation converging demo_env 0 0 [seedling (- 999 / 1000)] fresh) =
     Inr \<lparr>g_population = [(seedling (1 / 1000))\<lparr>fitness := Some (1 / 1000000)\<rparr>],
          g_best = (seedling (1 / 1000))\<lparr>fitness := Some (1 / 1000000)\<rparr>,
          g_should_stop = True\<rparr> \<and>
   loop converging demo_env 0 0 [seedling (- 999 / 1000)] (seedling (- 999 / 1000)) fresh =
     (Inr ((seedling (1 / 1000))\<lparr>fitness := Some (1 / 1000000)\<rparr>),
      snd (generation converging demo_env 0 0 [seedling (- 999 / 1000)] fresh)) \<and>
   rp_should_stop
     (last (reported (snd (generation converging demo_env 0 0 [seedling (- 999 / 1000)] fresh))))"
proof -
  let ?G = "generation converging demo_env 0 0 [seedling (- 999 / 1000)] fresh"
  let ?b = "(seedling (1 / 1000))\<lparr>fitness := Some (1 / 1000000)\<rparr>"
  let ?R = "\<lparr>g_population = [?b], g_best = ?b, g_should_stop = True\<rparr>"
  have cfg: "0 < generations converging" "0 \<noteq> generations converging - 1"
    "target_fitness_value converging = Some 0" "target_tolerance converging = 1 / 100000"
    "reporter converging"
    by (simp_all add: example_defs)
  have gen: "fst ?G = Inr ?R"
    by (simp add: engine_defs example_defs Let_def)
  then have gen': "?G = (Inr ?R, snd ?G)"
    by (simp add: prod_eq_iff)
  from early_stop_ends_run [OF cfg(1) gen', of "seedling (- 999 / 1000)"] cfg gen
  show ?thesis
    by auto
qed

subsection \<open>C5: counting evaluations\<close>

text \<open>
  Claim C5. One pass through the body of the loop increases the evaluation counter by
  the number of individuals in \<open>children + population\<close>, the offspring together with
  the aged survivors, that is by \<open>num_children\<close> times the number of parents plus the
  number of survivors; this also holds when the pass raises. Hence after the \<open>k\<close>-th
  pass of a run the counter is its initial value (0 for a new engine) plus the sum of
  these sizes over the passes up to the \<open>k\<close>-th.
\<close>

theorem evaluations_counts_offspring_and_survivors:
  "evaluations (snd (generation self env t0 g population eng)) =
     evaluations eng +
     int (length (fst (offspring_and_survivors self env population (random_state eng)))) \<and>
   length (fst (offspring_and_survivors self env population (random_state eng))) =
     nat (num_children self) * length population + length (age_population self population) \<and>
   (\<forall>k < length (generations_trace self env t0 g population eng).
      evaluations (snd (snd (generations_trace self env t0 g population eng ! k))) =
        evaluations eng +
        (\<Sum>j\<le>k. int (length (fst (generations_trace self env t0 g population eng ! j)))))"
proof -
  have "generation self env t0 g population eng =
      (fst (generation self env t0 g population eng),
       snd (generation self env t0 g population eng))"
    by simp
  then have "evaluations (snd (generation self env t0 g population eng)) =
     evaluations eng +
     int (length (fst (offspring_and_survivors self env population (random_state eng))))"
    by (rule generation_engine)
  moreover have
    "length (fst (offspring_and_survivors self env population (random_state eng))) =
     nat (num_children self) * length population + length (age_population self population)"
    by (rule length_offspring_and_survivors)
  ultimately show ?thesis
    using trace_evaluations [of _ self env t0 g population eng] by blast
qed

text \<open>
  An instance: in the three generations of \<open>crowd\<close>, started from one individual, the
  evaluated lists have 2, 4 and 4 members and the counter reads 2, 6 and 10.
\<close>

theorem evaluations_counts_offspring_and_survivors_witness:
  "map (\<lambda>entry. (length (fst entry), evaluations (snd (snd entry))))
     (generations_trace crowd demo_env 0 0 [seedling (- 3)] fresh) =
     [(2, 2), (4, 6), (4, 10)] \<and>
   2 < length (generations_trace crowd demo_env 0 0 [seedling (- 3)] fresh) \<and>
   evaluations (snd (snd (generations_trace crowd demo_env 0 0 [seedling (- 3)]
       fresh ! 2))) =
     evaluations fresh +
     (\<Sum>j\<le>2. int (length (fst (generations_trace crowd demo_env 0 0 [seedling (- 3)]
        fresh ! j))))"
proof -
  let ?T = "generations_trace crowd demo_env 0 0 [seedling (- 3)] fresh"
  have T: "map (\<lambda>entry. (length (fst entry), evaluations (snd (snd entry)))) ?T =
      [(2, 2), (4, 6), (4, 10)]"
    by (simp add: generations_trace.simps engine_defs example_defs)
  from arg_cong [OF T, of length] have len: "2 < length ?T"
    by simp
  from evaluations_counts_offspring_and_survivors
         [of crowd demo_env 0 0 "[seedling (- 3)]" fresh,
          THEN conjunct2, THEN conjunct2, rule_format, OF len] T len
  show ?thesis
    by (intro conjI) assumption+
qed

subsection \<open>C6: aging\<close>

text \<open>
  Claim C6. \<open>_age_population\<close> keeps, in their order, exactly the individuals whose
  age is strictly less than \<open>max_age\<close>, each with its age increased by one and
  otherwise unchanged, and drops all others. With \<open>max_age = 0\<close> nobody is kept, and
  the list evaluated in the next generation consists of the children alone.
\<close>

theorem age_population_keeps_young:
  "map (\<lambda>j. j\<lparr>age := age j - 1\<rparr>) (age_population self population) =
     filter (\<lambda>i. int (age i) < max_age self) population \<and>
   map age (age_population self population) =
     map (\<lambda>i. age i + 1) (filter (\<lambda>i. int (age i) < max_age self) population) \<and>
   (\<forall>j \<in> set (age_population self population).
      \<exists>i \<in> set population. int (age i) < max_age self \<and> j = i\<lparr>age := age i + 1\<rparr>) \<and>
   (\<forall>i \<in> set population. int (age i) < max_age self \<longrightarrow>
      i\<lparr>age := age i + 1\<rparr> \<in> set (age_population self population)) \<and>
   (max_age self = 0 \<longrightarrow>
      age_population self population = [] \<and>
      fst (offspring_and_survivors self env population r) =
        fst (make_children env (py_range_len (num_children self)) population r))"
  by (auto simp: age_population_def offspring_and_survivors_def split_beta comp_def
        filter_empty_conv intro!: map_idI)

text \<open>
  Instances: with \<open>max_age = 2\<close> an individual of age 0 is kept at age 1 and one of age
  2 is dropped; with \<open>max_age = 0\<close> both are dropped.
\<close>

theorem age_population_keeps_young_witness:
  "age_population (demo\<lparr>max_age := 2\<rparr>) [young, old] = [young\<lparr>age := 1\<rparr>] \<and>
   young \<in> set [young, old] \<and> int (age young) < max_age (demo\<lparr>max_age := 2\<rparr>) \<and>
   \<not> int (age old) < max_age (demo\<lparr>max_age := 2\<rparr>) \<and>
   max_age demo = 0 \<and> age_population demo [young, old] = []"
  using age_population_keeps_young [of "demo\<lparr>max_age := 2\<rparr>" "[young, old]" demo_env 0]
    age_population_keeps_young [of demo "[young, old]" demo_env 0]
  by (simp add: example_defs Individual_def age_population_def)

subsection \<open>C7: genotypes of length 0\<close>

text \<open>
  Claim C7. With \<open>individual_length = 0\<close>, \<open>run\<close> returns \<open>None\<close> and leaves the engine
  as it was: the fitness function is not called, the random generator and the clock are
  not touched, nothing is reported.
\<close>

theorem run_zero_length:
  "individual_length self = 0 \<Longrightarrow> run self env eng = (Inr None, eng)"
  by (simp add: run_def)

theorem run_zero_length_witness:
  "individual_length (demo\<lparr>individual_length := 0\<rparr>) = 0 \<and>
   run (demo\<lparr>individual_length := 0\<rparr>) demo_env fresh = (Inr None, fresh)"
  using run_zero_length [of "demo\<lparr>individual_length := 0\<rparr>" demo_env fresh]
  by simp

subsection \<open>C8: unrecognized strategy\<close>

text \<open>
  Claim C8, as amended. If the strategy is none of the three recognized values, then
  \<open>_init_population\<close> raises \<open>ValueError\<close> without drawing a random number, and every
  run with an individual length other than 0 fails with this error after having read the
  clock once, before any call of the fitness function.
\<close>

theorem init_population_rejects_strategy:
  "strategy self \<notin> {SINGLE_VARIANCE, MULTIPLE_VARIANCE, FULL_VARIANCE} \<Longrightarrow>
   init_population self env eng = (Inl ValueError, eng) \<and>
   (individual_length self \<noteq> 0 \<longrightarrow>
      run self env eng = (Inl ValueError, eng\<lparr>clock_reads := Suc (clock_reads eng)\<rparr>) \<and>
      fitness_calls (snd (run self env eng)) = fitness_calls eng)"
  by (cases "strategy self") (simp_all add: init_population_def run_def)

theorem init_population_rejects_strategy_witness:
  "strategy (demo\<lparr>strategy := Not_A_Strategy 0\<rparr>)
     \<notin> {SINGLE_VARIANCE, MULTIPLE_VARIANCE, FULL_VARIANCE} \<and>
   individual_length (demo\<lparr>strategy := Not_A_Strategy 0\<rparr>) \<noteq> 0 \<and>
   run (demo\<lparr>strategy := Not_A_Strategy 0\<rparr>) demo_env fresh =
     (Inl ValueError, fresh\<lparr>clock_reads := 1\<rparr>) \<and>
   fitness_calls (snd (run (demo\<lparr>strategy := Not_A_Strategy 0\<rparr>) demo_env fresh)) = 0"
  using init_population_rejects_strategy
          [of "demo\<lparr>strategy := Not_A_Strategy 0\<rparr>" demo_env fresh]
  by (simp add: example_defs new_engine_def)

text \<open>
  The claim as stated, for every strategy value, fails where the individual length is 0:
  the run returns \<open>None\<close> before the strategy is looked at.
\<close>

theorem run_bad_strategy_zero_length_counterexample:
  "strategy (demo\<lparr>individual_length := 0, strategy := Not_A_Strategy 0\<rparr>)
     \<notin> {SINGLE_VARIANCE, MULTIPLE_VARIANCE, FULL_VARIANCE} \<and>
   run (demo\<lparr>individual_length := 0, strategy := Not_A_Strategy 0\<rparr>) demo_env fresh
     = (Inr None, fresh)"
  by (simp add: run_def)

subsection \<open>C9: the selected population\<close>

text \<open>
  Claim C9. With a population size of at least 1, the population that a pass through the
  body of the loop selects, in any generation of any run, holds at most
  \<open>population_size\<close> individuals and is ordered by fitness in the configured direction:
  the fitness never improves from one member to a later one.
\<close>

theorem truncated_population_sorted_bounded:
  assumes "1 \<le> population_size self"
    and "generation self env t0 g population eng = (Inr res, eng')"
  shows "int (length (g_population res)) \<le> population_size self \<and>
         sorted_wrt (ranks_before self) (g_population res)"
proof -
  from assms(2) obtain pool where
    pop: "g_population res = slice_to (population_size self) (sorted_by_fitness self pool)"
    by (rule generation_InrE)
  from assms(1) have "length (g_population res) \<le> nat (population_size self)"
    unfolding pop by (intro length_slice_to) simp
  with assms(1) have "int (length (g_population res)) \<le> population_size self"
    by simp
  moreover have "sorted_wrt (ranks_before self) (g_population res)"
    unfolding pop by (intro sorted_wrt_slice_to sorted_wrt_sorted_by_fitness)
  ultimately show ?thesis by simp
qed

text \<open>
  An instance: two parents and their two children compete for two places; the children
  with fitness 1 and 4 are selected, in this order.
\<close>

theorem truncated_population_sorted_bounded_witness:
  "1 \<le> population_size crowd \<and>
   fst (generation crowd demo_env 0 0 [seedling (- 2), seedling (- 3)] fresh) =
     Inr \<lparr>g_population = [(seedling (- 1))\<lparr>fitness := Some 1\<rparr>, (seedling (- 2))\<lparr>fitness := Some 4\<rparr>],
          g_best = (seedling (- 1))\<lparr>fitness := Some 1\<rparr>, g_should_stop = False\<rparr> \<and>
   int (length [(seedling (- 1))\<lparr>fitness := Some 1\<rparr>, (seedling (- 2))\<lparr>fitness := Some 4\<rparr>])
     \<le> population_size crowd \<and>
   sorted_wrt (ranks_before crowd)
     [(seedling (- 1))\<lparr>fitness := Some 1\<rparr>, (seedling (- 2))\<lparr>fitness := Some 4\<rparr>]"
proof -
  let ?G = "generation crowd demo_env 0 0 [seedling (- 2), seedling (- 3)] fresh"
  let ?R = "\<lparr>g_population = [(seedling (- 1))\<lparr>fitness := Some 1\<rparr>, (seedling (- 2))\<lparr>fitness := Some 4\<rparr>],
          g_best = (seedling (- 1))\<lparr>fitness := Some 1\<rparr>, g_should_stop = False\<rparr>"
  have size: "1 \<le> population_size crowd"
    by (simp add: example_defs)
  have gen: "fst ?G = Inr ?R"
    by (simp add: engine_defs example_defs)
  then have "?G = (Inr ?R, snd ?G)"
    by (simp add: prod_eq_iff)
  from truncated_population_sorted_bounded [OF size this] size gen show ?thesis
    by simp
qed

subsection \<open>C10: the evaluations of the initial population\<close>

text \<open>
  Claim C10. In a run that gets past the initialization, whatever its outcome, the number
  of calls of the fitness function exceeds the increase of the evaluation counter by
  exactly the size of the initial population: the evaluations of the initial individuals
  by the first \<open>sorted\<close> are never counted, and the counter that \<open>_check_early_stop\<close>
  compares with \<open>max_evaluations\<close> excludes them.
\<close>

theorem initial_evaluations_not_counted:
  assumes "individual_length self \<noteq> 0"
    and "init_population self env (eng\<lparr>clock_reads := Suc (clock_reads eng)\<rparr>) =
           (Inr population, eng1)"
    and "run self env eng = (out, eng')"
  shows "int (fitness_calls eng') - int (fitness_calls eng) =
           (evaluations eng' - evaluations eng) + int (length population)"
proof -
  let ?eng2 = "eng1\<lparr>fitness_calls := fitness_calls eng1 + length population\<rparr>"
  from init_population_engine [OF assms(2)]
  have start: "int (fitness_calls ?eng2) - evaluations ?eng2 =
      int (fitness_calls eng) - evaluations eng + int (length population)"
    by simp
  show ?thesis
  proof (cases "sorted_by_fitness self population")
    case Nil
    with assms have "eng' = ?eng2"
      by (auto simp: run_def Let_def)
    with start show ?thesis by simp
  next
    case (Cons best rest)
    obtain res eng3 where
      lp: "loop self env (time env (clock_reads eng)) 0
             (map (\<lambda>i. fst (evaluate (fitness_function self) i)) population) best ?eng2 =
           (res, eng3)"
      by force
    with assms Cons have "eng' = eng3"
      by (auto simp: run_def Let_def split: sum.splits)
    moreover from loop_calls_evaluations [OF lp]
    have "int (fitness_calls eng3) - evaluations eng3 =
        int (fitness_calls ?eng2) - evaluations ?eng2" .
    ultimately show ?thesis using start by simp
  qed
qed

text \<open>
  An instance: the run of \<open>demo\<close> calls the fitness function three times, once for the
  initial individual and once in each of its two generations, and counts two evaluations.
\<close>

theorem initial_evaluations_not_counted_witness:
  "individual_length demo \<noteq> 0 \<and>
   fst (init_population demo demo_env
          (fresh\<lparr>clock_reads := Suc (clock_reads fresh)\<rparr>)) =
     Inr [seedling 0] \<and>
   fst (run demo demo_env fresh) = Inr (Some [2]) \<and>
   fitness_calls (snd (run demo demo_env fresh)) = 3 \<and>
   evaluations (snd (run demo demo_env fresh)) = 2 \<and>
   int (fitness_calls (snd (run demo demo_env fresh))) -
     int (fitness_calls fresh) =
   (evaluations (snd (run demo demo_env fresh)) - evaluations fresh) +
     int (length [seedling 0])"
proof -
  let ?E = "fresh\<lparr>clock_reads := Suc (clock_reads fresh)\<rparr>"
  have len: "individual_length demo \<noteq> 0"
    by (simp add: example_defs)
  have init: "fst (init_population demo demo_env ?E) = Inr [seedling 0]"
    by (simp add: engine_defs example_defs)
  then have init': "init_population demo demo_env ?E =
      (Inr [seedling 0], snd (init_population demo demo_env ?E))"
    by (simp add: prod_eq_iff)
  have r: "run demo demo_env fresh =
      (fst (run demo demo_env fresh), snd (run demo demo_env fresh))"
    by simp
  have res: "fst (run demo demo_env fresh) = Inr (Some [2]) \<and>
     fitness_calls (snd (run demo demo_env fresh)) = 3 \<and>
     evaluations (snd (run demo demo_env fresh)) = 2"
    by (simp add: loop.simps engine_defs example_defs)
  from initial_evaluations_not_counted [OF len init' r] len init res show ?thesis
    by (intro conjI) (elim conjE, assumption)+
qed

end
